theory Spec2Isabelle
  imports Main "HOL-Library.Sublist"
begin

section \<open>The driver of yosys-smtbmc (backends/smt2/smtbmc.py)\<close>

text \<open>
  The script drives an external SMT solver through the class \<open>smtio\<close>, which is not part
  of the file. The model keeps the script's own control flow and records, in order, every
  command the script writes to the solver, every query it makes, every message it prints
  and every call to its reporting functions. Python integers are \<^typ>\<open>int\<close>; a frame
  variable \<open>s%d\<close> is identified by its step number.
\<close>

subsection \<open>Net references in constraint expressions (lines 232-275)\<close>

text \<open>
  \<open>netref_regex = (^|[( ])\[(-?[0-9]+:|)([^\]]+)\](?=[ )]|$)\<close>.
  The functions below follow the backtracking matcher of Python's \<open>re\<close> on this pattern,
  one function per part of the pattern. A match attempt starts at one position of the
  subject; \<open>at_start\<close> says whether that position is the start of the string (where
  \<open>^\<close> matches).
\<close>

definition is_digit :: "char \<Rightarrow> bool" where
  "is_digit c = (48 \<le> (of_char c :: nat) \<and> (of_char c :: nat) \<le> 57)"

definition digit_val :: "char \<Rightarrow> nat" where
  "digit_val c = (of_char c :: nat) - 48"

definition dec_val :: "string \<Rightarrow> nat" where
  "dec_val ds = foldl (\<lambda>a c. 10 * a + digit_val c) 0 ds"

text \<open>\<open>(^|[( ])\[\<close>: the context glyph (group 1) and the opening bracket.\<close>

definition match_open :: "bool \<Rightarrow> string \<Rightarrow> (string \<times> string) option" where
  "match_open at_start s =
     (case s of
        [] \<Rightarrow> None
      | c # r \<Rightarrow>
          if at_start \<and> c = CHR ''['' then Some ([], r)
          else if c = CHR ''('' \<or> c = CHR '' '' then
            (case r of
               [] \<Rightarrow> None
             | d # r' \<Rightarrow> if d = CHR ''['' then Some ([c], r') else None)
          else None)"

text \<open>\<open>-?[0-9]+:\<close>: the first alternative of group 2.\<close>

definition match_sel :: "string \<Rightarrow> (string \<times> string) option" where
  "match_sel b =
     (let sgn = (case b of [] \<Rightarrow> [] | c # r \<Rightarrow> if c = CHR ''-'' then [c] else []);
          b1 = drop (length sgn) b;
          ds = takeWhile is_digit b1;
          b2 = dropWhile is_digit b1
      in if ds = [] then None
         else (case b2 of
                 [] \<Rightarrow> None
               | c # b3 \<Rightarrow> if c = CHR '':'' then Some (sgn @ ds @ [c], b3) else None))"

text \<open>\<open>(?=[ )]|$)\<close>: without the MULTILINE flag, \<open>$\<close> matches at the end of the
  string and before a newline that ends the string.\<close>

definition lookahead :: "string \<Rightarrow> bool" where
  "lookahead after =
     (case after of
        [] \<Rightarrow> True
      | c # cs \<Rightarrow> c = CHR '' '' \<or> c = CHR '')'' \<or> (c = CHR 0x0A \<and> cs = []))"

text \<open>\<open>([^\]]+)\](?=[ )]|$)\<close>: group 3, the closing bracket and the lookahead.\<close>

definition match_name :: "string \<Rightarrow> (string \<times> string) option" where
  "match_name b =
     (let name = takeWhile (\<lambda>c. c \<noteq> CHR '']'') b;
          r = dropWhile (\<lambda>c. c \<noteq> CHR '']'') b
      in if name = [] then None
         else (case r of
                 [] \<Rightarrow> None
               | c # after \<Rightarrow> if lookahead after then Some (name, after) else None))"

text \<open>The whole pattern at one position: (group 1, group 2, group 3, rest of the subject).
  When the first alternative of group 2 leads to no match, the matcher backtracks to the
  empty alternative.\<close>

definition match_netref :: "bool \<Rightarrow> string \<Rightarrow> (string \<times> string \<times> string \<times> string) option" where
  "match_netref at_start s =
     (case match_open at_start s of
        None \<Rightarrow> None
      | Some (g1, b) \<Rightarrow>
          (case (case match_sel b of
                   None \<Rightarrow> None
                 | Some (sel, b') \<Rightarrow>
                     (case match_name b' of
                        None \<Rightarrow> None
                      | Some (name, after) \<Rightarrow> Some (g1, sel, name, after))) of
             Some m \<Rightarrow> Some m
           | None \<Rightarrow>
               (case match_name b of
                  None \<Rightarrow> None
                | Some (name, after) \<Rightarrow> Some (g1, [], name, after))))"

text \<open>\<open>int(state_sel[:-1])\<close> on a string that matched \<open>-?[0-9]+\<close>.\<close>

definition int_of_sel :: "string \<Rightarrow> int" where
  "int_of_sel s =
     (case s of
        [] \<Rightarrow> 0
      | c # r \<Rightarrow> if c = CHR ''-'' then - int (dec_val r) else int (dec_val s))"

text \<open>
  The solver session: \<open>net_expr st name\<close> stands for
  \<open>smt.net_expr(topmod, "s%d" % st, smt.get_path(topmod, name))\<close>, and \<open>answers k\<close> is
  what the \<open>k\<close>-th call of \<open>smt.check_sat()\<close> returns (counted from 0).
\<close>

record solver =
  net_expr :: "int \<Rightarrow> string \<Rightarrow> string"
  answers :: "nat \<Rightarrow> string"

text \<open>\<open>replace_netref\<close> (lines 242-254); \<open>state\<close> is the home step.\<close>

definition replace_netref :: "solver \<Rightarrow> int \<Rightarrow> string \<Rightarrow> string \<Rightarrow> string \<Rightarrow> string" where
  "replace_netref smt state g1 state_sel name =
     (let st = (if state_sel = [] then state
                else if hd state_sel = CHR ''-'' then state + int_of_sel (butlast state_sel)
                else int_of_sel (butlast state_sel))
      in g1 @ net_expr smt st name)"

lemma match_name_shorter:
  "match_name b = Some (name, after) \<Longrightarrow> length after < length b"
proof -
  assume m: "match_name b = Some (name, after)"
  have "length (dropWhile (\<lambda>c. c \<noteq> CHR '']'') b) \<le> length b"
    by (rule length_dropWhile_le)
  with m show ?thesis
    by (auto simp: match_name_def Let_def split: if_splits list.splits)
qed

lemma match_sel_shorter:
  "match_sel b = Some (sel, b') \<Longrightarrow> length b' < length b"
proof -
  assume m: "match_sel b = Some (sel, b')"
  define k where "k = length (case b of [] \<Rightarrow> [] | c # r \<Rightarrow> if c = CHR ''-'' then [c] else [])"
  have "length (dropWhile is_digit (drop k b)) \<le> length (drop k b)"
    by (rule length_dropWhile_le)
  then have "length (dropWhile is_digit (drop k b)) \<le> length b"
    by simp
  with m show ?thesis
    unfolding match_sel_def Let_def k_def
    by (auto split: if_splits list.splits)
qed

lemma match_open_shorter:
  "match_open at_start s = Some (g1, b) \<Longrightarrow> length b < length s"
  by (auto simp: match_open_def split: if_splits list.splits)

lemma match_netref_shorter:
  "match_netref at_start s = Some (g1, sel, name, after) \<Longrightarrow> length after < length s"
  unfolding match_netref_def
  by (auto split: option.splits prod.splits
      dest!: match_open_shorter match_sel_shorter match_name_shorter)

text \<open>\<open>netref_regex.sub(replace_netref, expr)\<close>: leftmost non-overlapping matches are
  replaced, every other character is copied.\<close>

function netref_sub :: "solver \<Rightarrow> int \<Rightarrow> bool \<Rightarrow> string \<Rightarrow> string" where
  "netref_sub smt state at_start s =
     (case match_netref at_start s of
        Some (g1, sel, name, after) \<Rightarrow>
          replace_netref smt state g1 sel name @ netref_sub smt state False after
      | None \<Rightarrow>
          (case s of
             [] \<Rightarrow> []
           | c # cs \<Rightarrow> c # netref_sub smt state False cs))"
  by pat_completeness auto
termination
  by (relation "measure (\<lambda>(smt, state, at_start, s). length s)")
     (auto dest: match_netref_shorter)

declare netref_sub.simps [simp del]

subsection \<open>The constraint tables and \<open>get_constr_expr\<close> (lines 144-146, 232-275)\<close>

text \<open>
  A key of \<open>constr_asserts\<close> and \<open>constr_assumes\<close> is an integer step or a string
  \<open>"final-%d" % i\<close>. A table maps a key to its list of (location, expression) pairs;
  a key that was never written to is absent.
\<close>

datatype key = Step int | Final int

text \<open>A location \<open>"%s:%d" % (fn, current_line)\<close> is kept as the pair of the file name and
  the line number.\<close>

type_synonym loc = "string \<times> nat"

type_synonym constr_db = "key \<Rightarrow> (loc \<times> string) list option"

record constr =
  constr_final_start :: "int option"
  constr_asserts :: constr_db
  constr_assumes :: constr_db

text \<open>\<open>" ".join(xs)\<close>.\<close>

fun join_sp :: "string list \<Rightarrow> string" where
  "join_sp [] = []"
| "join_sp [x] = x"
| "join_sp (x # y # r) = x @ CHR '' '' # join_sp (y # r)"

text \<open>\<open>get_constr_expr(db, state, final)\<close> with \<open>getvalues=False\<close>, the form every
  solver command of the drivers uses.\<close>

definition get_constr_expr :: "solver \<Rightarrow> constr_db \<Rightarrow> int \<Rightarrow> bool \<Rightarrow> string" where
  "get_constr_expr smt db state final =
     (case db (if final then Final state else Step state) of
        None \<Rightarrow> ''true''
      | Some entries \<Rightarrow>
          (let expr_list = map (\<lambda>(loc, expr). netref_sub smt state True expr) entries
           in if length expr_list = 0 then ''true''
              else if length expr_list = 1 then hd expr_list
              else ''(and '' @ join_sp expr_list @ '')''))"

subsection \<open>What the script does to the outside world\<close>

text \<open>The messages the script prints (without their time stamps).\<close>

datatype msg =
    Skipping int                \<comment> \<open>\<open>Skipping step %d..\<close>\<close>
  | SkippingAssuming int        \<comment> \<open>\<open>Skipping step %d (and assuming pass)..\<close>\<close>
  | CheckingStep int            \<comment> \<open>\<open>Checking asserts in step %d..\<close>\<close>
  | CheckingSteps int int       \<comment> \<open>\<open>Checking asserts in steps %d to %d..\<close>\<close>
  | BmcFailed                   \<comment> \<open>\<open>BMC failed!\<close>\<close>
  | CheckingFinal int           \<comment> \<open>\<open>Checking final constraints in step %d..\<close>\<close>
  | Solving int                 \<comment> \<open>\<open>Solving for step %d..\<close>\<close>
  | NoSolution                  \<comment> \<open>\<open>No solution found!\<close>\<close>
  | SkippingInduction int       \<comment> \<open>\<open>Skipping induction in step %d..\<close>\<close>
  | TryingInduction int         \<comment> \<open>\<open>Trying induction in step %d..\<close>\<close>
  | InductionFailed             \<comment> \<open>\<open>Temporal induction failed!\<close>\<close>
  | InductionSuccessful         \<comment> \<open>\<open>Temporal induction successful.\<close>\<close>
  | Status bool                 \<comment> \<open>\<open>Status: PASSED\<close> or \<open>Status: FAILED (!)\<close>\<close>
  | ExclusiveOptions            \<comment> \<open>\<open>Error: options -i and --smtc are exclusive.\<close>\<close>
  | Usage                       \<comment> \<open>the help text of \<open>usage()\<close>\<close>
  | SolverName                  \<comment> \<open>\<open>Solver: %s\<close>\<close>

text \<open>The third argument of \<open>write_trace\<close>: \<open>'%'\<close> or \<open>"%d" % step\<close>.\<close>

datatype index = Percent | Num int

text \<open>One constructor for each command text the drivers write to the solver, for each
  solver query, and for each call of a reporting function.\<close>

datatype event =
    Declare int                       \<comment> \<open>\<open>(declare-fun s%d () %s_s)\<close>\<close>
  | AssertU int                       \<comment> \<open>\<open>(assert (%s_u s%d))\<close>\<close>
  | AssertH int                       \<comment> \<open>\<open>(assert (%s_h s%d))\<close>\<close>
  | AssertI                           \<comment> \<open>\<open>(assert (%s_i s0))\<close>\<close>
  | AssertIs                          \<comment> \<open>\<open>(assert (%s_is s0))\<close>\<close>
  | AssertNotIs int                   \<comment> \<open>\<open>(assert (not (%s_is s%d)))\<close>\<close>
  | AssertT int int                   \<comment> \<open>\<open>(assert (%s_t s%d s%d))\<close>\<close>
  | AssertA int                       \<comment> \<open>\<open>(assert (%s_a s%d))\<close>\<close>
  | AssertNotA int                    \<comment> \<open>\<open>(assert (not (%s_a s%d)))\<close>\<close>
  | AssertExpr string                 \<comment> \<open>\<open>(assert %s)\<close>\<close>
  | AssertNotExpr string              \<comment> \<open>\<open>(assert (not %s))\<close>\<close>
  | AssertNotAnd "int list" "string list"
      \<comment> \<open>\<open>(assert (not (and %s)))\<close>: the steps of the \<open>(%s_a s%d)\<close> terms, then
          the constraint expressions\<close>
  | Push nat                          \<comment> \<open>\<open>(push 1)\<close>\<close>
  | Pop nat                           \<comment> \<open>\<open>(pop 1)\<close>\<close>
  | CheckSat string                   \<comment> \<open>\<open>smt.check_sat()\<close> and what it returned\<close>
  | SolverSetup                       \<comment> \<open>\<open>smtio(opts=so)\<close>, \<open>smt.setup\<close>, the input file\<close>
  | SolverExit                        \<comment> \<open>\<open>(exit)\<close>\<close>
  | SolverWait                        \<comment> \<open>\<open>smt.wait()\<close>\<close>
  | Print msg
  | PrintAnyconsts int                \<comment> \<open>\<open>print_anyconsts(state)\<close>\<close>
  | PrintFailedAsserts int bool       \<comment> \<open>\<open>print_failed_asserts(state, final)\<close>\<close>
  | WriteTrace int int index          \<comment> \<open>\<open>write_trace(steps_start, steps_stop, index)\<close>\<close>

text \<open>The globals of lines 25-37, which the option loop sets, with their defaults.\<close>

record config =
  skip_steps :: int
  step_size :: int
  num_steps :: int
  vcdfile :: "string option"
  vlogtbfile :: "string option"
  inconstr :: "string list"
  outconstr :: "string option"
  gentrace :: bool
  tempind :: bool
  dumpall :: bool
  assume_skipped :: "int option"
  final_only :: bool
  topmod :: "string option"

definition default_config :: config where
  "default_config =
     \<lparr>skip_steps = 0, step_size = 1, num_steps = 20, vcdfile = None, vlogtbfile = None,
      inconstr = [], outconstr = None, gentrace = False, tempind = False, dumpall = False,
      assume_skipped = None, final_only = False, topmod = None\<rparr>"

record state =
  log :: "event list"
  retstatus :: bool

definition emit :: "event list \<Rightarrow> state \<Rightarrow> state" where
  "emit evs st = st\<lparr>log := log st @ evs\<rparr>"

fun is_check :: "event \<Rightarrow> bool" where
  "is_check (CheckSat a) = True"
| "is_check _ = False"

definition check_sat :: "solver \<Rightarrow> state \<Rightarrow> string \<times> state" where
  "check_sat smt st =
     (let a = answers smt (length (filter is_check (log st)))
      in (a, emit [CheckSat a] st))"

subsection \<open>The BMC driver (lines 567-672)\<close>

text \<open>Lines 571-582: the frame at the cursor.\<close>

definition frame_events :: "solver \<Rightarrow> constr \<Rightarrow> int \<Rightarrow> event list" where
  "frame_events smt db step =
     [Declare step, AssertU step, AssertH step,
      AssertExpr (get_constr_expr smt (constr_assumes db) step False)] @
     (if step = 0 then [AssertI, AssertIs]
      else [AssertT (step - 1) step, AssertNotIs step])"

text \<open>Lines 585-590: a skipped step.\<close>

definition skip_events :: "config \<Rightarrow> solver \<Rightarrow> constr \<Rightarrow> int \<Rightarrow> event list" where
  "skip_events cfg smt db step =
     (if assume_skipped cfg \<noteq> None \<and> step \<ge> the (assume_skipped cfg) then
        [Print (SkippingAssuming step), AssertA step,
         AssertExpr (get_constr_expr smt (constr_asserts db) step False)]
      else [Print (Skipping step)])"

text \<open>Lines 594-602: the loop \<open>for i in range(1, step_size)\<close>, carrying
  \<open>last_check_step\<close>.\<close>

definition extend_step :: "config \<Rightarrow> solver \<Rightarrow> constr \<Rightarrow> int \<Rightarrow> int \<Rightarrow> int \<times> state \<Rightarrow> int \<times> state" where
  "extend_step cfg smt db step i ls =
     (if step + i < num_steps cfg then
        (step + i,
         emit [Declare (step + i), AssertU (step + i), AssertH (step + i),
               AssertT (step + i - 1) (step + i),
               AssertExpr (get_constr_expr smt (constr_assumes db) (step + i) False)] (snd ls))
      else ls)"

definition extend_window :: "config \<Rightarrow> solver \<Rightarrow> constr \<Rightarrow> int \<Rightarrow> state \<Rightarrow> int \<times> state" where
  "extend_window cfg smt db step st =
     fold (extend_step cfg smt db step) [1..step_size cfg - 1] (step, st)"

text \<open>Lines 606-624: the check of the asserts of a window. The first component says
  whether the \<open>break\<close> of line 622 was taken.\<close>

definition check_asserts :: "solver \<Rightarrow> constr \<Rightarrow> int \<Rightarrow> int \<Rightarrow> state \<Rightarrow> bool \<times> state" where
  "check_asserts smt db step last_check_step st =
     (let st1 = emit [Print (if last_check_step = step then CheckingStep step
                             else CheckingSteps step last_check_step),
                      Push 1,
                      AssertNotAnd [step..last_check_step]
                        (map (\<lambda>i. get_constr_expr smt (constr_asserts db) i False)
                           [step..last_check_step])] st;
          (a, st2) = check_sat smt st1
      in if a = ''sat'' then
           (True,
            (emit ([Print BmcFailed, PrintAnyconsts step] @
                   map (\<lambda>i. PrintFailedAsserts i False) [step..last_check_step] @
                   [WriteTrace 0 (last_check_step + 1) Percent]) st2)\<lparr>retstatus := False\<rparr>)
         else (False, emit [Pop 1] st2))"

text \<open>Lines 626-628 (and 654-656): the asserts of the window, asserted for good.\<close>

definition commit_events :: "solver \<Rightarrow> constr \<Rightarrow> int \<Rightarrow> int \<Rightarrow> event list" where
  "commit_events smt db step last_check_step =
     concat (map (\<lambda>i. [AssertA i, AssertExpr (get_constr_expr smt (constr_asserts db) i False)])
               [step..last_check_step])"

text \<open>Lines 635-649: the check of the final constraints at one step. The first
  component says whether the \<open>break\<close> of line 647 was taken.\<close>

definition check_final :: "solver \<Rightarrow> constr \<Rightarrow> int \<Rightarrow> state \<Rightarrow> bool \<times> state" where
  "check_final smt db i st =
     (let st1 = emit [Print (CheckingFinal i), Push 1,
                      AssertExpr (get_constr_expr smt (constr_assumes db) i True),
                      AssertNotExpr (get_constr_expr smt (constr_asserts db) i True)] st;
          (a, st2) = check_sat smt st1
      in if a = ''sat'' then
           (True,
            (emit [Print BmcFailed, PrintAnyconsts i, PrintFailedAsserts i True,
                   WriteTrace 0 (i + 1) Percent] st2)\<lparr>retstatus := False\<rparr>)
         else (False, emit [Pop 1] st2))"

text \<open>Lines 631-649: the loop over the steps of the window; \<open>cfs\<close> is
  \<open>constr_final_start\<close>.\<close>

fun check_finals :: "solver \<Rightarrow> constr \<Rightarrow> int \<Rightarrow> int list \<Rightarrow> state \<Rightarrow> state" where
  "check_finals smt db cfs [] st = st"
| "check_finals smt db cfs (i # rest) st =
     (if i < cfs then check_finals smt db cfs rest st
      else
        (let (broke, st') = check_final smt db i st
         in if broke then st' else check_finals smt db cfs rest st'))"

text \<open>One pass through the body of \<open>while step < num_steps\<close>: either the next value of
  \<open>step\<close>, or \<open>Break\<close>.\<close>

datatype flow = Continue int | Break

definition bmc_body :: "config \<Rightarrow> solver \<Rightarrow> constr \<Rightarrow> int \<Rightarrow> state \<Rightarrow> flow \<times> state" where
  "bmc_body cfg smt db step st =
     (let st1 = emit (frame_events smt db step) st
      in if step < skip_steps cfg then
           (Continue (step + 1), emit (skip_events cfg smt db step) st1)
         else
           (let (last_check_step, st2) = extend_window cfg smt db step st1
            in if \<not> gentrace cfg then
                 (let (broke, st3) =
                        (if \<not> final_only cfg then check_asserts smt db step last_check_step st2
                         else (False, st2))
                  in if broke then (Break, st3)
                     else
                       (let st4 = emit (commit_events smt db step last_check_step) st3;
                            st5 = (case constr_final_start db of
                                     None \<Rightarrow> st4
                                   | Some cfs \<Rightarrow>
                                       check_finals smt db cfs [step..last_check_step] st4)
                        in if constr_final_start db \<noteq> None \<and> \<not> retstatus st5 then (Break, st5)
                           else (Continue (step + step_size cfg), st5)))
               else
                 (let st3 = emit (commit_events smt db step last_check_step @
                                  [Print (Solving last_check_step)]) st2;
                      (a, st4) = check_sat smt st3
                  in if a \<noteq> ''sat'' then
                       (Break, (emit [Print NoSolution] st4)\<lparr>retstatus := False\<rparr>)
                     else
                       (Continue (step + step_size cfg),
                        (if dumpall cfg then
                           emit [PrintAnyconsts 0,
                                 WriteTrace 0 (last_check_step + 1) (Num step)] st4
                         else st4)))))"

text \<open>The loop \<open>while step < num_steps\<close>. It need not end (\<open>step_size\<close> may be 0 or
  negative): the result is \<open>None\<close> when it does not.\<close>

partial_function (option) bmc_loop ::
  "config \<Rightarrow> solver \<Rightarrow> constr \<Rightarrow> int \<Rightarrow> state \<Rightarrow> state option" where
  "bmc_loop cfg smt db step st =
     (if step < num_steps cfg then
        (case bmc_body cfg smt db step st of
           (Break, st') \<Rightarrow> Some st'
         | (Continue step', st') \<Rightarrow> bmc_loop cfg smt db step' st')
      else Some st)"

declare bmc_loop.simps [code]

text \<open>Lines 568-672: the branch \<open>else: # not tempind\<close>, from a state whose log holds
  what was done before it.\<close>

definition bmc_driver :: "config \<Rightarrow> solver \<Rightarrow> constr \<Rightarrow> state \<Rightarrow> state option" where
  "bmc_driver cfg smt db st0 =
     (case bmc_loop cfg smt db 0 (st0\<lparr>retstatus := True\<rparr>) of
        None \<Rightarrow> None
      | Some st \<Rightarrow>
          Some (if gentrace cfg then
                  emit [PrintAnyconsts 0, WriteTrace 0 (num_steps cfg) Percent] st
                else st))"

subsection \<open>Observations on a log\<close>

text \<open>The depth of the solver's assertion stack after the commands of a log.\<close>

fun depth_change :: "event \<Rightarrow> int" where
  "depth_change (Push n) = int n"
| "depth_change (Pop n) = - int n"
| "depth_change _ = 0"

definition depth :: "event list \<Rightarrow> int" where
  "depth evs = sum_list (map depth_change evs)"

text \<open>The number of calls of \<open>check_sat\<close> in a log.\<close>

definition nchecks :: "event list \<Rightarrow> nat" where
  "nchecks evs = length (filter is_check evs)"

subsection \<open>Concrete runs\<close>

text \<open>A solver that answers \<open>sat\<close> to every check, one that answers \<open>unsat\<close>, and one
  that answers \<open>unknown\<close>; no constraint files; the command line \<open>-t skip:size:num\<close>.\<close>

definition smt_sat :: solver where
  "smt_sat = \<lparr>net_expr = (\<lambda>st name. name), answers = (\<lambda>k. ''sat'')\<rparr>"

definition smt_unsat :: solver where
  "smt_unsat = \<lparr>net_expr = (\<lambda>st name. name), answers = (\<lambda>k. ''unsat'')\<rparr>"

definition smt_unknown :: solver where
  "smt_unknown = \<lparr>net_expr = (\<lambda>st name. name), answers = (\<lambda>k. ''unknown'')\<rparr>"

definition no_constr :: constr where
  "no_constr = \<lparr>constr_final_start = None, constr_asserts = (\<lambda>k. None),
                 constr_assumes = (\<lambda>k. None)\<rparr>"

definition bmc_config :: "int \<Rightarrow> int \<Rightarrow> int \<Rightarrow> config" where
  "bmc_config skip sz num =
     default_config\<lparr>skip_steps := skip, step_size := sz, num_steps := num\<rparr>"

definition start :: state where
  "start = \<lparr>log = [], retstatus = True\<rparr>"

subsection \<open>The induction driver (lines 521-564)\<close>

text \<open>Lines 525-535: the frame of one step.\<close>

definition ind_frame_events :: "config \<Rightarrow> int \<Rightarrow> event list" where
  "ind_frame_events cfg step =
     [Declare step, AssertU step, AssertH step, AssertNotIs step] @
     (if step = num_steps cfg then [AssertNotA step]
      else [AssertT step (step + 1), AssertA step])"

text \<open>Lines 550-559: what is reported after the answer \<open>sat\<close>.\<close>

definition ind_sat_events :: "config \<Rightarrow> int \<Rightarrow> event list" where
  "ind_sat_events cfg step =
     (if step = 0 then
        [Print InductionFailed, PrintAnyconsts (num_steps cfg),
         PrintFailedAsserts (num_steps cfg) False,
         WriteTrace step (num_steps cfg + 1) Percent]
      else if dumpall cfg then
        [PrintAnyconsts (num_steps cfg), PrintFailedAsserts (num_steps cfg) False,
         WriteTrace step (num_steps cfg + 1) (Num step)]
      else [])"

text \<open>Lines 546-564: the check of one step. The first component says whether the
  \<open>break\<close> of line 564 was taken.\<close>

definition ind_check :: "config \<Rightarrow> solver \<Rightarrow> int \<Rightarrow> state \<Rightarrow> bool \<times> state" where
  "ind_check cfg smt step st =
     (let st2 = emit [Print (TryingInduction step)] st;
          (a, st3) = check_sat smt st2
      in if a = ''sat'' then (False, emit (ind_sat_events cfg step) st3)
         else (True, (emit [Print InductionSuccessful] st3)\<lparr>retstatus := True\<rparr>))"

text \<open>The loop \<open>for step in range(num_steps, -1, -1)\<close> over the steps still to come,
  carrying \<open>skip_counter\<close>.\<close>

fun ind_loop :: "config \<Rightarrow> solver \<Rightarrow> int list \<Rightarrow> int \<Rightarrow> state \<Rightarrow> state" where
  "ind_loop cfg smt [] skip_counter st = st"
| "ind_loop cfg smt (step # rest) skip_counter st =
     (let st1 = emit (ind_frame_events cfg step) st
      in if step > num_steps cfg - skip_steps cfg then
           ind_loop cfg smt rest skip_counter (emit [Print (SkippingInduction step)] st1)
         else if skip_counter + 1 < step_size cfg then
           ind_loop cfg smt rest (skip_counter + 1) (emit [Print (SkippingInduction step)] st1)
         else
           (let (broke, st') = ind_check cfg smt step st1
            in if broke then st' else ind_loop cfg smt rest 0 st'))"

definition ind_driver :: "config \<Rightarrow> solver \<Rightarrow> state \<Rightarrow> state" where
  "ind_driver cfg smt st0 =
     ind_loop cfg smt (rev [0..num_steps cfg]) (step_size cfg) (st0\<lparr>retstatus := False\<rparr>)"

subsection \<open>Python's \<open>str.split\<close> and \<open>int\<close>\<close>

text \<open>
  Strings are byte strings here. The white space of \<open>str.split()\<close> and \<open>int()\<close> is the
  ASCII white space of \<open>str.isspace\<close>, and a digit is an ASCII digit; a byte above 127 is
  neither.
\<close>

definition is_space :: "char \<Rightarrow> bool" where
  "is_space c = ((of_char c :: nat) \<in> {9, 10, 11, 12, 13, 28, 29, 30, 31, 32})"

text \<open>\<open>s.split()\<close>: the maximal runs of characters that are not white space.\<close>

fun split_acc :: "string \<Rightarrow> string \<Rightarrow> string list" where
  "split_acc cur [] = (if cur = [] then [] else [cur])"
| "split_acc cur (c # cs) =
     (if is_space c then (if cur = [] then split_acc [] cs else cur # split_acc [] cs)
      else split_acc (cur @ [c]) cs)"

definition py_split :: "string \<Rightarrow> string list" where
  "py_split s = split_acc [] s"

text \<open>\<open>s.split(sep)\<close> for a separator of one character.\<close>

fun split_on :: "char \<Rightarrow> string \<Rightarrow> string list" where
  "split_on sep [] = [[]]"
| "split_on sep (c # cs) =
     (if c = sep then [] # split_on sep cs
      else (c # hd (split_on sep cs)) # tl (split_on sep cs))"

text \<open>\<open>int(s)\<close>: white space around, an optional sign, then digits with single
  underscores between them; \<open>None\<close> stands for \<open>ValueError\<close>.\<close>

fun digits_ok :: "string \<Rightarrow> bool" where
  "digits_ok [] = False"
| "digits_ok [c] = is_digit c"
| "digits_ok (c # d # r) =
     (is_digit c \<and> (if d = CHR ''_'' then digits_ok r else digits_ok (d # r)))"

definition strip_ws :: "string \<Rightarrow> string" where
  "strip_ws s = rev (dropWhile is_space (rev (dropWhile is_space s)))"

definition py_int :: "string \<Rightarrow> int option" where
  "py_int s =
     (let t = strip_ws s;
          neg = (t \<noteq> [] \<and> hd t = CHR ''-'');
          body = (if t \<noteq> [] \<and> (hd t = CHR ''-'' \<or> hd t = CHR ''+'') then tl t else t)
      in if digits_ok body then
           Some (if neg then - int (dec_val (filter is_digit body))
                 else int (dec_val (filter is_digit body)))
         else None)"

subsection \<open>The constraint file parser (lines 144-229)\<close>

text \<open>An uncaught exception, with the line of the script that raises it (the line the
  traceback names).\<close>

datatype exn = AssertionError nat | ValueError nat | OSError nat

text \<open>The variables of the parser: \<open>current_states\<close> (\<open>None\<close> before the first scope
  directive of a file) and the three tables.\<close>

record pstate =
  current_states :: "key set option"
  final_start :: "int option"
  asserts_db :: constr_db
  assumes_db :: constr_db

text \<open>\<open>for state in current_states: db[state].append(entry)\<close>.\<close>

definition add_constr :: "key set \<Rightarrow> loc \<times> string \<Rightarrow> constr_db \<Rightarrow> constr_db" where
  "add_constr cs entry db =
     (\<lambda>k. if k \<in> cs then Some ((case db k of None \<Rightarrow> [] | Some l \<Rightarrow> l) @ [entry])
          else db k)"

text \<open>Lines 186-199: the items of a \<open>state\<close> directive.\<close>

fun state_items :: "int \<Rightarrow> string list \<Rightarrow> key set \<Rightarrow> exn + key set" where
  "state_items num [] cs = Inr cs"
| "state_items num (token # rest) cs =
     (let tok = split_on CHR '':'' token
      in if length tok = 1 then
           (case py_int token of
              None \<Rightarrow> Inl (ValueError 189)
            | Some i \<Rightarrow> state_items num rest (insert (Step i) cs))
         else if length tok = 2 then
           (case py_int (tok ! 0) of
              None \<Rightarrow> Inl (ValueError 191)
            | Some lower \<Rightarrow>
                if tok ! 1 = ''*'' then
                  state_items num rest (cs \<union> set (map Step [lower..num]))
                else
                  (case py_int (tok ! 1) of
                     None \<Rightarrow> Inl (ValueError 195)
                   | Some upper \<Rightarrow>
                       state_items num rest (cs \<union> set (map Step [lower..upper]))))
         else Inl (AssertionError 199))"

text \<open>Lines 154-229: one line of the file \<open>fn\<close>; \<open>current_line\<close> is already
  incremented.\<close>

definition parse_line :: "int \<Rightarrow> string \<Rightarrow> nat \<Rightarrow> string \<Rightarrow> pstate \<Rightarrow> exn + pstate" where
  "parse_line num fn current_line line ps =
     (if take 1 line = ''#'' then Inr ps
      else
        (let tokens = py_split line
         in if length tokens = 0 then Inr ps
            else if hd tokens = ''initial'' then
              Inr (ps\<lparr>current_states := Some (insert (Step 0) {})\<rparr>)
            else if hd tokens = ''final'' then
              (if length tokens = 1 then
                 Inr (ps\<lparr>current_states := Some (set (map Final [0..num])),
                         final_start := Some 0\<rparr>)
               else if length tokens = 2 then
                 (case py_int (tokens ! 1) of
                    None \<Rightarrow> Inl (ValueError 175)
                  | Some i \<Rightarrow>
                      if \<not> i < 0 then Inl (AssertionError 176)
                      else
                        Inr (ps\<lparr>current_states := Some (set (map Final [- i..num])),
                                final_start :=
                                  Some (case final_start ps of
                                          None \<Rightarrow> - i
                                        | Some f \<Rightarrow> min f (- i))\<rparr>))
               else Inl (AssertionError 180))
            else if hd tokens = ''state'' then
              (case state_items num (tl tokens) {} of
                 Inl e \<Rightarrow> Inl e
               | Inr cs \<Rightarrow> Inr (ps\<lparr>current_states := Some cs\<rparr>))
            else if hd tokens = ''always'' then
              (if length tokens = 1 then
                 Inr (ps\<lparr>current_states := Some (set (map Step [0..num]))\<rparr>)
               else if length tokens = 2 then
                 (case py_int (tokens ! 1) of
                    None \<Rightarrow> Inl (ValueError 206)
                  | Some i \<Rightarrow>
                      if \<not> i < 0 then Inl (AssertionError 207)
                      else Inr (ps\<lparr>current_states := Some (set (map Step [- i..num]))\<rparr>))
               else Inl (AssertionError 210))
            else if hd tokens = ''assert'' then
              (case current_states ps of
                 None \<Rightarrow> Inl (AssertionError 214)
               | Some cs \<Rightarrow>
                   Inr (ps\<lparr>asserts_db :=
                             add_constr cs ((fn, current_line), join_sp (tl tokens))
                               (asserts_db ps)\<rparr>))
            else if hd tokens = ''assume'' then
              (case current_states ps of
                 None \<Rightarrow> Inl (AssertionError 222)
               | Some cs \<Rightarrow>
                   Inr (ps\<lparr>assumes_db :=
                             add_constr cs ((fn, current_line), join_sp (tl tokens))
                               (assumes_db ps)\<rparr>))
            else Inl (AssertionError 229)))"

text \<open>Lines 153-229: the lines of one file, from line number \<open>current_line\<close> on.\<close>

fun parse_lines :: "int \<Rightarrow> string \<Rightarrow> nat \<Rightarrow> string list \<Rightarrow> pstate \<Rightarrow> exn + pstate" where
  "parse_lines num fn current_line [] ps = Inr ps"
| "parse_lines num fn current_line (line # rest) ps =
     (case parse_line num fn (current_line + 1) line ps of
        Inl e \<Rightarrow> Inl e
      | Inr ps' \<Rightarrow> parse_lines num fn (current_line + 1) rest ps')"

text \<open>Lines 148-229: the files of \<open>inconstr\<close> in turn. \<open>fs\<close> gives the lines of a file
  that can be opened.\<close>

fun parse_files :: "(string \<Rightarrow> string list option) \<Rightarrow> int \<Rightarrow> string list \<Rightarrow> pstate \<Rightarrow> exn + pstate" where
  "parse_files fs num [] ps = Inr ps"
| "parse_files fs num (fn # rest) ps =
     (case fs fn of
        None \<Rightarrow> Inl (OSError 152)
      | Some lines \<Rightarrow>
          (case parse_lines num fn 0 lines (ps\<lparr>current_states := None\<rparr>) of
             Inl e \<Rightarrow> Inl e
           | Inr ps' \<Rightarrow> parse_files fs num rest ps'))"

definition parse_constr :: "(string \<Rightarrow> string list option) \<Rightarrow> int \<Rightarrow> string list \<Rightarrow> exn + constr" where
  "parse_constr fs num fns =
     (case parse_files fs num fns
             \<lparr>current_states = None, final_start = None,
              asserts_db = (\<lambda>k. None), assumes_db = (\<lambda>k. None)\<rparr> of
        Inl e \<Rightarrow> Inl e
      | Inr ps \<Rightarrow>
          Inr \<lparr>constr_final_start = final_start ps, constr_asserts = asserts_db ps,
               constr_assumes = assumes_db ps\<rparr>)"

subsection \<open>The option loop and the whole script\<close>

datatype abort = Raise exn | UsageExit

text \<open>Lines 97-109: the argument of \<open>-t\<close>.\<close>

definition handle_t :: "string \<Rightarrow> config \<Rightarrow> abort + config" where
  "handle_t arg cfg =
     (let a = split_on CHR '':'' arg
      in if length a = 1 then
           (case py_int (a ! 0) of
              None \<Rightarrow> Inl (Raise (ValueError 100))
            | Some n \<Rightarrow> Inr (cfg\<lparr>num_steps := n\<rparr>))
         else if length a = 2 then
           (case py_int (a ! 0) of
              None \<Rightarrow> Inl (Raise (ValueError 102))
            | Some k \<Rightarrow>
                (case py_int (a ! 1) of
                   None \<Rightarrow> Inl (Raise (ValueError 103))
                 | Some n \<Rightarrow> Inr (cfg\<lparr>skip_steps := k, num_steps := n\<rparr>)))
         else if length a = 3 then
           (case py_int (a ! 0) of
              None \<Rightarrow> Inl (Raise (ValueError 105))
            | Some k \<Rightarrow>
                (case py_int (a ! 1) of
                   None \<Rightarrow> Inl (Raise (ValueError 106))
                 | Some z \<Rightarrow>
                     (case py_int (a ! 2) of
                        None \<Rightarrow> Inl (Raise (ValueError 107))
                      | Some n \<Rightarrow>
                          Inr (cfg\<lparr>skip_steps := k, step_size := z, num_steps := n\<rparr>))))
         else Inl (Raise (AssertionError 109)))"

text \<open>Lines 96-133: one option; \<open>so_handle\<close> stands for \<open>so.handle\<close> of \<open>smtopts\<close>.\<close>

definition handle_opt :: "(string \<Rightarrow> string \<Rightarrow> bool) \<Rightarrow> string \<times> string \<Rightarrow> config \<Rightarrow> abort + config" where
  "handle_opt so_handle oa cfg =
     (let opt = fst oa; a = snd oa
      in if opt = ''-t'' then handle_t a cfg
         else if opt = ''--assume-skipped'' then
           (case py_int a of
              None \<Rightarrow> Inl (Raise (ValueError 111))
            | Some k \<Rightarrow> Inr (cfg\<lparr>assume_skipped := Some k\<rparr>))
         else if opt = ''--final-only'' then Inr (cfg\<lparr>final_only := True\<rparr>)
         else if opt = ''--smtc'' then Inr (cfg\<lparr>inconstr := inconstr cfg @ [a]\<rparr>)
         else if opt = ''--dump-vcd'' then Inr (cfg\<lparr>vcdfile := Some a\<rparr>)
         else if opt = ''--dump-vlogtb'' then Inr (cfg\<lparr>vlogtbfile := Some a\<rparr>)
         else if opt = ''--dump-smtc'' then Inr (cfg\<lparr>outconstr := Some a\<rparr>)
         else if opt = ''--dump-all'' then Inr (cfg\<lparr>dumpall := True\<rparr>)
         else if opt = ''-i'' then Inr (cfg\<lparr>tempind := True\<rparr>)
         else if opt = ''-g'' then Inr (cfg\<lparr>gentrace := True\<rparr>)
         else if opt = ''-m'' then Inr (cfg\<lparr>topmod := Some a\<rparr>)
         else if so_handle opt a then Inr cfg
         else Inl UsageExit)"

fun handle_opts :: "(string \<Rightarrow> string \<Rightarrow> bool) \<Rightarrow> (string \<times> string) list \<Rightarrow> config \<Rightarrow> abort + config" where
  "handle_opts so_handle [] cfg = Inr cfg"
| "handle_opts so_handle (oa # rest) cfg =
     (case handle_opt so_handle oa cfg of
        Inl e \<Rightarrow> Inl e
      | Inr cfg' \<Rightarrow> handle_opts so_handle rest cfg')"

text \<open>
  What the script is run in: the result of \<open>getopt.getopt\<close> (\<open>None\<close> when it raises), the
  option handler of \<open>smtopts\<close>, the constraint files, whether the asserts on \<open>topmod\<close> of
  lines 291-292 hold for the value of \<open>-m\<close>, and the solver.
\<close>

record world =
  getopt :: "((string \<times> string) list \<times> string list) option"
  so_handle :: "string \<Rightarrow> string \<Rightarrow> bool"
  files :: "string \<Rightarrow> string list option"
  topmod_ok :: "string option \<Rightarrow> bool"
  session :: solver

text \<open>How the process ends: \<open>sys.exit(code)\<close> or an uncaught exception, with what was
  done until then.\<close>

datatype outcome = Exited int "event list" | Raised exn "event list"

text \<open>The exit status of the process: an uncaught exception ends Python with status 1.\<close>

fun exit_code :: "outcome \<Rightarrow> int" where
  "exit_code (Exited c evs) = c"
| "exit_code (Raised e evs) = 1"

fun events :: "outcome \<Rightarrow> event list" where
  "events (Exited c evs) = evs"
| "events (Raised e evs) = evs"

text \<open>Lines 90-679. The result is \<open>None\<close> when the BMC loop does not end.\<close>

definition main :: "world \<Rightarrow> outcome option" where
  "main w =
     (case getopt w of
        None \<Rightarrow> Some (Exited 1 [Print Usage])
      | Some (opts, args) \<Rightarrow>
          (case handle_opts (so_handle w) opts default_config of
             Inl (Raise e) \<Rightarrow> Some (Raised e [])
           | Inl UsageExit \<Rightarrow> Some (Exited 1 [Print Usage])
           | Inr cfg \<Rightarrow>
               if length args \<noteq> 1 then Some (Exited 1 [Print Usage])
               else if tempind cfg \<and> length (inconstr cfg) \<noteq> 0 then
                 Some (Exited 1 [Print ExclusiveOptions])
               else
                 (case parse_constr (files w) (num_steps cfg) (inconstr cfg) of
                    Inl e \<Rightarrow> Some (Raised e [])
                  | Inr db \<Rightarrow>
                      if \<not> topmod_ok w (topmod cfg) then
                        Some (Raised (AssertionError 291) [Print SolverName, SolverSetup])
                      else
                        (case (if tempind cfg then
                                 Some (ind_driver cfg (session w)
                                         \<lparr>log = [Print SolverName, SolverSetup],
                                          retstatus = False\<rparr>)
                               else
                                 bmc_driver cfg (session w) db
                                   \<lparr>log = [Print SolverName, SolverSetup],
                                    retstatus = True\<rparr>) of
                           None \<Rightarrow> None
                         | Some st \<Rightarrow>
                             Some (Exited (if retstatus st then 0 else 1)
                                     (log st @ [SolverExit, SolverWait,
                                                Print (Status (retstatus st))]))))))"

subsection \<open>Derived notions used in the statements\<close>



text \<open>The windows whose asserts are checked, and the steps whose final constraints are
  checked, in the order of a log.\<close>

fun windows_of :: "event list \<Rightarrow> int list list" where
  "windows_of [] = []"
| "windows_of (AssertNotAnd ws es # evs) = ws # windows_of evs"
| "windows_of (e # evs) = windows_of evs"

fun finals_of :: "event list \<Rightarrow> int list" where
  "finals_of [] = []"
| "finals_of (Print (CheckingFinal i) # evs) = i # finals_of evs"
| "finals_of (e # evs) = finals_of evs"










definition extension_run :: "event list" where
  "extension_run =
     [Declare 0, AssertU 0, AssertH 0, AssertExpr ''true'', AssertI, AssertIs,
      Declare 1, AssertU 1, AssertH 1, AssertT 0 1, AssertExpr ''true'',
      Print (CheckingSteps 0 1), Push 1, AssertNotAnd [0, 1] [''true'', ''true''],
      CheckSat ''unsat'', Pop 1, AssertA 0, AssertExpr ''true'', AssertA 1,
      AssertExpr ''true'']"

subsection \<open>The final directives of the constraint files, in the words of the specification\<close>













subsection \<open>Notions for the gentrace mode\<close>


text \<open>A log all of whose checks were answered \<open>sat\<close>.\<close>

definition all_sat :: "event list \<Rightarrow> bool" where
  "all_sat evs = list_all (\<lambda>e. case e of CheckSat a \<Rightarrow> a = ''sat'' | _ \<Rightarrow> True) evs"



subsection \<open>The checks of final constraints in a log\<close>











section \<open>Properties\<close>

subsection \<open>Basic facts about logs\<close>

lemma log_emit [simp]: "log (emit evs st) = log st @ evs"
  by (simp add: emit_def)

lemma retstatus_emit [simp]: "retstatus (emit evs st) = retstatus st"
  by (simp add: emit_def)

lemma emit_emit: "emit b (emit a st) = emit (a @ b) st"
  by (simp add: emit_def)

lemma depth_append [simp]: "depth (a @ b) = depth a + depth b"
  by (simp add: depth_def)

lemma depth_Nil [simp]: "depth [] = 0"
  by (simp add: depth_def)

lemma depth_Cons [simp]: "depth (e # evs) = depth_change e + depth evs"
  by (simp add: depth_def)

lemma nchecks_append [simp]: "nchecks (a @ b) = nchecks a + nchecks b"
  by (simp add: nchecks_def)

lemma nchecks_Nil [simp]: "nchecks [] = 0"
  by (simp add: nchecks_def)

lemma nchecks_Cons [simp]: "nchecks (e # evs) = (if is_check e then 1 else 0) + nchecks evs"
  by (simp add: nchecks_def)

lemma check_sat_eq:
  "check_sat smt st = (answers smt (nchecks (log st)), emit [CheckSat (answers smt (nchecks (log st)))] st)"
  by (simp add: check_sat_def nchecks_def Let_def)

text \<open>The events of the two check windows, written out.\<close>

lemma check_asserts_log:
  "log (snd (check_asserts smt db step l st)) =
     log st @
     [Print (if l = step then CheckingStep step else CheckingSteps step l), Push 1,
      AssertNotAnd [step..l] (map (\<lambda>i. get_constr_expr smt (constr_asserts db) i False) [step..l]),
      CheckSat (answers smt (nchecks (log st)))] @
     (if answers smt (nchecks (log st)) = ''sat'' then
        [Print BmcFailed, PrintAnyconsts step] @ map (\<lambda>i. PrintFailedAsserts i False) [step..l] @
        [WriteTrace 0 (l + 1) Percent]
      else [Pop 1])"
  by (simp add: check_asserts_def check_sat_eq Let_def)

lemma check_asserts_broke:
  "fst (check_asserts smt db step l st) = (answers smt (nchecks (log st)) = ''sat'')"
  by (simp add: check_asserts_def check_sat_eq Let_def)


lemma check_final_log:
  "log (snd (check_final smt db i st)) =
     log st @
     [Print (CheckingFinal i), Push 1,
      AssertExpr (get_constr_expr smt (constr_assumes db) i True),
      AssertNotExpr (get_constr_expr smt (constr_asserts db) i True),
      CheckSat (answers smt (nchecks (log st)))] @
     (if answers smt (nchecks (log st)) = ''sat'' then
        [Print BmcFailed, PrintAnyconsts i, PrintFailedAsserts i True, WriteTrace 0 (i + 1) Percent]
      else [Pop 1])"
  by (simp add: check_final_def check_sat_eq Let_def)

lemma check_final_broke:
  "fst (check_final smt db i st) = (answers smt (nchecks (log st)) = ''sat'')"
  by (simp add: check_final_def check_sat_eq Let_def)


lemma depth_map_pfa [simp]: "depth (map (\<lambda>i. PrintFailedAsserts i b) xs) = 0"
  by (induction xs) simp_all

subsection \<open>Push and pop around a check\<close>

text \<open>
  C1 (as amended). A check window is one call of \<open>check_asserts\<close> (lines 606-624) or of
  \<open>check_final\<close> (lines 635-649). Each pushes one scope before asserting the negated
  obligation. When \<open>check_sat\<close> answers anything but \<open>sat\<close> the scope is popped and the
  depth of the assertion stack after the window is the depth before it. When the answer
  is \<open>sat\<close> the window ends at its \<open>break\<close> without a pop: the depth after the window is
  the depth before it plus one.
\<close>

theorem check_window_depth:
  "depth (log (snd (check_asserts smt db step l st))) =
     depth (log st) + (if fst (check_asserts smt db step l st) then 1 else 0) \<and>
   fst (check_asserts smt db step l st) = (answers smt (nchecks (log st)) = ''sat'') \<and>
   depth (log (snd (check_final smt db i st))) =
     depth (log st) + (if fst (check_final smt db i st) then 1 else 0) \<and>
   fst (check_final smt db i st) = (answers smt (nchecks (log st)) = ''sat'')"
  by (simp add: check_asserts_log check_asserts_broke check_final_log check_final_broke)

text \<open>
  C1 as stated fails: with a solver that answers \<open>sat\<close>, the window that checks the asserts
  of step 0 starts at depth 0 and ends at depth 1.
\<close>

theorem failing_check_leaves_push:
  "depth (log start) = 0 \<and>
   depth (log (snd (check_asserts smt_sat no_constr 0 0 start))) = 1"
  by (simp add: check_asserts_log smt_sat_def start_def)

subsection \<open>The window of a step\<close>

lemma emit_Nil [simp]: "emit [] st = st"
  by (simp add: emit_def)



subsection \<open>The checks of final constraints\<close>

lemma windows_of_append [simp]: "windows_of (a @ b) = windows_of a @ windows_of b"
  by (induction a rule: windows_of.induct) simp_all

lemma finals_of_append [simp]: "finals_of (a @ b) = finals_of a @ finals_of b"
  by (induction a rule: finals_of.induct) simp_all




subsection \<open>Skipped steps\<close>





subsection \<open>The events of one pass through the loop\<close>










lemma finals_of_pfa [simp]: "finals_of (map (\<lambda>i. PrintFailedAsserts i b) xs) = []"
  by (induction xs) simp_all

lemma windows_of_pfa [simp]: "windows_of (map (\<lambda>i. PrintFailedAsserts i b) xs) = []"
  by (induction xs) simp_all







subsection \<open>The loop\<close>













subsection \<open>The three commands of a check\<close>



















subsection \<open>The horizon\<close>






subsection \<open>The initial marker\<close>

text \<open>
  C2 fails on the code. With \<open>-t 0:2:2\<close> the frame \<open>s1\<close> is declared by the loop of lines
  595-602, which asserts \<open>u\<close>, \<open>h\<close>, the transition and the assumptions, but not
  \<open>(not (is s1))\<close>: the whole run has no such command. The frame at the cursor (line 582)
  and every frame of the induction driver (line 528) get it.
\<close>

theorem extension_frame_without_not_is:
  "bmc_driver (bmc_config 0 2 2) smt_unsat no_constr start =
     Some \<lparr>log = extension_run, retstatus = True\<rparr> \<and>
   Declare 1 \<in> set extension_run \<and> AssertNotIs 1 \<notin> set extension_run"
proof -
  have "bmc_driver (bmc_config 0 2 2) smt_unsat no_constr start =
     Some \<lparr>log = extension_run, retstatus = True\<rparr>"
    by code_simp
  then show ?thesis by (simp add: extension_run_def)
qed

subsection \<open>The parser and \<open>constr_final_start\<close>\<close>











subsection \<open>The answers of the solver\<close>

text \<open>
  C9. At the three places where the script asks \<open>check_sat\<close> (the check of the asserts of
  a window, the check of the final constraints of a step, the induction check of a step),
  the failure branch is taken exactly when the answer is the string \<open>sat\<close>. For every
  other answer, \<open>unknown\<close> as well as \<open>unsat\<close>, what is done is the same and does not look
  at the answer again: the BMC checks pop and go on with the status unchanged, the
  induction check reports success, sets the status and leaves the loop. With a solver
  that always answers \<open>unknown\<close>, a BMC run passes as with one that answers \<open>unsat\<close>, and
  an induction run succeeds.
\<close>

theorem only_sat_fails:
  "check_asserts smt db step l st =
     (if answers smt (nchecks (log st)) = ''sat'' then
        (True,
         (emit ([Print (if l = step then CheckingStep step else CheckingSteps step l), Push 1,
                 AssertNotAnd [step..l]
                   (map (\<lambda>i. get_constr_expr smt (constr_asserts db) i False) [step..l]),
                 CheckSat ''sat'', Print BmcFailed, PrintAnyconsts step] @
                map (\<lambda>i. PrintFailedAsserts i False) [step..l] @
                [WriteTrace 0 (l + 1) Percent]) st)\<lparr>retstatus := False\<rparr>)
      else
        (False,
         emit [Print (if l = step then CheckingStep step else CheckingSteps step l), Push 1,
               AssertNotAnd [step..l]
                 (map (\<lambda>i. get_constr_expr smt (constr_asserts db) i False) [step..l]),
               CheckSat (answers smt (nchecks (log st))), Pop 1] st)) \<and>
   check_final smt db i st =
     (if answers smt (nchecks (log st)) = ''sat'' then
        (True,
         (emit [Print (CheckingFinal i), Push 1,
                AssertExpr (get_constr_expr smt (constr_assumes db) i True),
                AssertNotExpr (get_constr_expr smt (constr_asserts db) i True),
                CheckSat ''sat'', Print BmcFailed, PrintAnyconsts i, PrintFailedAsserts i True,
                WriteTrace 0 (i + 1) Percent] st)\<lparr>retstatus := False\<rparr>)
      else
        (False,
         emit [Print (CheckingFinal i), Push 1,
               AssertExpr (get_constr_expr smt (constr_assumes db) i True),
               AssertNotExpr (get_constr_expr smt (constr_asserts db) i True),
               CheckSat (answers smt (nchecks (log st))), Pop 1] st)) \<and>
   ind_check cfg smt step st =
     (if answers smt (nchecks (log st)) = ''sat'' then
        (False,
         emit ([Print (TryingInduction step), CheckSat ''sat''] @ ind_sat_events cfg step) st)
      else
        (True,
         (emit [Print (TryingInduction step), CheckSat (answers smt (nchecks (log st))),
                Print InductionSuccessful] st)\<lparr>retstatus := True\<rparr>)) \<and>
   map_option retstatus (bmc_driver (bmc_config 0 1 2) smt_unknown no_constr start) =
     map_option retstatus (bmc_driver (bmc_config 0 1 2) smt_unsat no_constr start) \<and>
   map_option retstatus (bmc_driver (bmc_config 0 1 2) smt_unknown no_constr start) = Some True \<and>
   retstatus (ind_driver (bmc_config 0 1 2) smt_unknown start)"
proof -
  have 1: "check_asserts smt db step l st =
     (if answers smt (nchecks (log st)) = ''sat'' then
        (True,
         (emit ([Print (if l = step then CheckingStep step else CheckingSteps step l), Push 1,
                 AssertNotAnd [step..l]
                   (map (\<lambda>i. get_constr_expr smt (constr_asserts db) i False) [step..l]),
                 CheckSat ''sat'', Print BmcFailed, PrintAnyconsts step] @
                map (\<lambda>i. PrintFailedAsserts i False) [step..l] @
                [WriteTrace 0 (l + 1) Percent]) st)\<lparr>retstatus := False\<rparr>)
      else
        (False,
         emit [Print (if l = step then CheckingStep step else CheckingSteps step l), Push 1,
               AssertNotAnd [step..l]
                 (map (\<lambda>i. get_constr_expr smt (constr_asserts db) i False) [step..l]),
               CheckSat (answers smt (nchecks (log st))), Pop 1] st))"
    by (simp add: check_asserts_def check_sat_eq Let_def emit_emit)
  have 2: "check_final smt db i st =
     (if answers smt (nchecks (log st)) = ''sat'' then
        (True,
         (emit [Print (CheckingFinal i), Push 1,
                AssertExpr (get_constr_expr smt (constr_assumes db) i True),
                AssertNotExpr (get_constr_expr smt (constr_asserts db) i True),
                CheckSat ''sat'', Print BmcFailed, PrintAnyconsts i, PrintFailedAsserts i True,
                WriteTrace 0 (i + 1) Percent] st)\<lparr>retstatus := False\<rparr>)
      else
        (False,
         emit [Print (CheckingFinal i), Push 1,
               AssertExpr (get_constr_expr smt (constr_assumes db) i True),
               AssertNotExpr (get_constr_expr smt (constr_asserts db) i True),
               CheckSat (answers smt (nchecks (log st))), Pop 1] st))"
    by (simp add: check_final_def check_sat_eq Let_def emit_emit)
  have 3: "ind_check cfg smt step st =
     (if answers smt (nchecks (log st)) = ''sat'' then
        (False,
         emit ([Print (TryingInduction step), CheckSat ''sat''] @ ind_sat_events cfg step) st)
      else
        (True,
         (emit [Print (TryingInduction step), CheckSat (answers smt (nchecks (log st))),
                Print InductionSuccessful] st)\<lparr>retstatus := True\<rparr>))"
    by (simp add: ind_check_def check_sat_eq Let_def emit_emit)
  have 4: "map_option retstatus (bmc_driver (bmc_config 0 1 2) smt_unknown no_constr start) =
      Some True"
    by code_simp
  have 5: "map_option retstatus (bmc_driver (bmc_config 0 1 2) smt_unsat no_constr start) =
      Some True"
    by code_simp
  have 6: "retstatus (ind_driver (bmc_config 0 1 2) smt_unknown start)"
    by code_simp
  show ?thesis
    by (simp only: 1 2 3 4 5 6 simp_thms)
qed

subsection \<open>The final dump of the gentrace mode\<close>



lemma all_sat_append [simp]: "all_sat (a @ b) = (all_sat a \<and> all_sat b)"
  by (simp add: all_sat_def)









subsection \<open>The gating of the final checks\<close>

























end
